theory Spec2Isabelle
  imports Main "HOL-Library.Sublist"
begin

section \<open>JavaScript strings\<close>

text \<open>
  The search screen \<^verbatim>\<open>src/app/(tabs)/home/search-results.jsx\<close> works on JavaScript
  strings with \<^verbatim>\<open>toLowerCase\<close>, \<^verbatim>\<open>trim\<close>, \<^verbatim>\<open>includes\<close>, \<^verbatim>\<open>===\<close> and
  \<^verbatim>\<open>join\<close>. A string is modelled as a list of code units below 256 (the Basic Latin
  and Latin-1 Supplement blocks of Unicode, which cover the Portuguese text of the
  application); on these code units the built-ins act one character at a time, as
  written out below.
\<close>

definition toLowerCaseChar :: "char \<Rightarrow> char" where
  \<comment> \<open>A..Z and the Latin-1 capitals U+00C0..U+00DE (without the sign U+00D7) move up by 32.\<close>
  "toLowerCaseChar c =
     (let n = (of_char c :: nat)
      in if (65 \<le> n \<and> n \<le> 90) \<or> (192 \<le> n \<and> n \<le> 222 \<and> n \<noteq> 215)
         then char_of (n + 32) else c)"

definition toLowerCase :: "string \<Rightarrow> string" where
  "toLowerCase s = map toLowerCaseChar s"

definition isWhiteSpace :: "char \<Rightarrow> bool" where
  \<comment> \<open>TAB, LF, VT, FF, CR, SPACE and NBSP: the white space and line terminators below 256.\<close>
  "isWhiteSpace c = ((of_char c :: nat) \<in> {9, 10, 11, 12, 13, 32, 160})"

definition trim :: "string \<Rightarrow> string" where
  "trim s = rev (dropWhile isWhiteSpace (rev (dropWhile isWhiteSpace s)))"

fun includes_str :: "string \<Rightarrow> string \<Rightarrow> bool" where
  \<comment> \<open>\<^verbatim>\<open>s.includes(sub)\<close>: \<open>sub\<close> occurs in \<open>s\<close> at some position.\<close>
  "includes_str [] sub = (sub = [])"
| "includes_str (c # s) sub = (prefix sub (c # s) \<or> includes_str s sub)"

fun join :: "string \<Rightarrow> string list \<Rightarrow> string" where
  "join sep [] = []"
| "join sep [x] = x"
| "join sep (x # y # ys) = x @ sep @ join sep (y # ys)"

section \<open>Data\<close>

record med_indications =
  keywords_list :: "string list"

record medicamento =
  id_med :: int
  name :: string
  category :: string
  indications :: med_indications

record adverse_reactions =
  symptoms :: "string list"

record user_drug =
  drug_name :: string
  adverseReactions :: adverse_reactions

record search_results =
  exact :: "medicamento list"
  similar :: "medicamento list"
  forSymptom :: "medicamento list"

record screen_state =
  results :: search_results
  symptomAlert :: "string option"

text \<open>
  The route parameter \<^verbatim>\<open>query\<close> of \<^verbatim>\<open>useLocalSearchParams\<close> is a string, an array
  of strings, or missing.
\<close>

datatype query_param = Undefined | Str string | StrArray "string list"

datatype js_error = TypeError

section \<open>The search effect\<close>

definition lowerCaseQuery :: "string \<Rightarrow> string" where
  "lowerCaseQuery query = trim (toLowerCase query)"

definition exactMatch :: "medicamento list \<Rightarrow> string \<Rightarrow> medicamento list" where
  "exactMatch MEDICAMENTOS lq = filter (\<lambda>m. toLowerCase (name m) = lq) MEDICAMENTOS"

definition partialMatch :: "medicamento list \<Rightarrow> string \<Rightarrow> medicamento list" where
  "partialMatch MEDICAMENTOS lq =
     filter (\<lambda>m. includes_str (toLowerCase (name m)) lq \<and> toLowerCase (name m) \<noteq> lq)
       MEDICAMENTOS"

definition forSymptomMatch :: "medicamento list \<Rightarrow> string \<Rightarrow> medicamento list" where
  "forSymptomMatch MEDICAMENTOS lq =
     filter (\<lambda>m. list_ex (\<lambda>keyword. includes_str keyword lq) (keywords_list (indications m)))
       MEDICAMENTOS"

definition similarMatch :: "medicamento list \<Rightarrow> string \<Rightarrow> medicamento list" where
  "similarMatch MEDICAMENTOS lq =
     (case exactMatch MEDICAMENTOS lq of
        [] \<Rightarrow> []
      | e # _ \<Rightarrow> filter (\<lambda>m. category m = category e \<and> id_med m \<noteq> id_med e) MEDICAMENTOS)"

definition similarAndPartial :: "medicamento list \<Rightarrow> string \<Rightarrow> medicamento list" where
  "similarAndPartial MEDICAMENTOS lq =
     similarMatch MEDICAMENTOS lq @
     filter (\<lambda>pm. \<not> list_ex (\<lambda>sm. id_med sm = id_med pm) (similarMatch MEDICAMENTOS lq)
                \<and> \<not> list_ex (\<lambda>em. id_med em = id_med pm) (exactMatch MEDICAMENTOS lq))
       (partialMatch MEDICAMENTOS lq)"

definition conflictingDrugs :: "user_drug list \<Rightarrow> string \<Rightarrow> string" where
  "conflictingDrugs userDrugs lq =
     join '', ''
       (map drug_name
          (filter (\<lambda>drug. list_ex (\<lambda>symptom. includes_str (toLowerCase symptom) lq)
                             (symptoms (adverseReactions drug)))
             userDrugs))"

definition alertMessage :: "string \<Rightarrow> string \<Rightarrow> string" where
  "alertMessage query drugs =
     ''O sintoma '' @ [CHR 0x22] @ query @ [CHR 0x22] @
     '' pode ser um efeito colateral de: '' @ drugs @ ''.''"

definition search :: "medicamento list \<Rightarrow> string \<Rightarrow> user_drug list \<Rightarrow> screen_state" where
  \<comment> \<open>The body of the effect for a string \<open>query\<close>; a non-empty string is truthy.\<close>
  "search MEDICAMENTOS query userDrugs =
     (let lq = lowerCaseQuery query;
          drugs = conflictingDrugs userDrugs lq
      in \<lparr>results = \<lparr>exact = exactMatch MEDICAMENTOS lq,
                      similar = similarAndPartial MEDICAMENTOS lq,
                      forSymptom = forSymptomMatch MEDICAMENTOS lq\<rparr>,
          symptomAlert = (if drugs \<noteq> [] then Some (alertMessage query drugs) else None)\<rparr>)"

definition searchEffect ::
    "medicamento list \<Rightarrow> query_param \<Rightarrow> user_drug list \<Rightarrow> js_error + screen_state" where
  \<comment> \<open>\<^verbatim>\<open>query.toLowerCase()\<close> throws a TypeError unless \<open>query\<close> is a string.\<close>
  "searchEffect MEDICAMENTOS query userDrugs =
     (case query of
        Str q \<Rightarrow> Inr (search MEDICAMENTOS q userDrugs)
      | Undefined \<Rightarrow> Inl TypeError
      | StrArray _ \<Rightarrow> Inl TypeError)"

text \<open>
  The screen's own new-search action: it navigates to a new \<^verbatim>\<open>query\<close> parameter only
  when the typed text is not blank (\<open>None\<close>: no navigation).
\<close>

definition handleNewSearch :: "string \<Rightarrow> query_param option" where
  "handleNewSearch newQuery = (if trim newQuery \<noteq> [] then Some (Str newQuery) else None)"

section \<open>The search effect on untyped records\<close>

text \<open>
  JavaScript objects are not typed: a field that the effect reads may be missing. In the
  records below \<open>None\<close> stands for \<^verbatim>\<open>undefined\<close>.
\<close>

record raw_indications =
  keywords_raw :: "string option list option"

record raw_medicamento =
  id_raw :: "int option"
  name_raw :: "string option"
  category_raw :: "string option"
  indications_raw :: "raw_indications option"

record raw_adverse_reactions =
  symptoms_raw :: "string option list option"

record raw_user_drug =
  drug_name_raw :: "string option"
  adverseReactions_raw :: "raw_adverse_reactions option"

record raw_results =
  exact_raw :: "raw_medicamento list"
  similar_raw :: "raw_medicamento list"
  forSymptom_raw :: "raw_medicamento list"

record raw_state =
  results_raw :: raw_results
  symptomAlert_raw :: "string option"

text \<open>
  Reading a property of \<^verbatim>\<open>undefined\<close> and calling a method on it throw a TypeError;
  \<^verbatim>\<open>filter\<close> and \<^verbatim>\<open>some\<close> stop at the first callback that throws, and
  \<^verbatim>\<open>some\<close> stops at the first element found.
\<close>

definition bindE :: "js_error + 'a \<Rightarrow> ('a \<Rightarrow> js_error + 'b) \<Rightarrow> js_error + 'b" where
  "bindE r f = (case r of Inl e \<Rightarrow> Inl e | Inr x \<Rightarrow> f x)"

definition readField :: "'a option \<Rightarrow> ('a \<Rightarrow> 'b) \<Rightarrow> js_error + 'b" where
  "readField obj field = (case obj of None \<Rightarrow> Inl TypeError | Some x \<Rightarrow> Inr (field x))"

definition callToLowerCase :: "string option \<Rightarrow> js_error + string" where
  "callToLowerCase s = (case s of None \<Rightarrow> Inl TypeError | Some x \<Rightarrow> Inr (toLowerCase x))"

definition callIncludes :: "string option \<Rightarrow> string \<Rightarrow> js_error + bool" where
  "callIncludes s sub = (case s of None \<Rightarrow> Inl TypeError | Some x \<Rightarrow> Inr (includes_str x sub))"

fun filterE :: "('a \<Rightarrow> js_error + bool) \<Rightarrow> 'a list \<Rightarrow> js_error + 'a list" where
  "filterE f [] = Inr []"
| "filterE f (x # xs) =
     bindE (f x) (\<lambda>keep. bindE (filterE f xs) (\<lambda>ys. Inr (if keep then x # ys else ys)))"

fun someE :: "('a \<Rightarrow> js_error + bool) \<Rightarrow> 'a list \<Rightarrow> js_error + bool" where
  "someE f [] = Inr False"
| "someE f (x # xs) = bindE (f x) (\<lambda>found. if found then Inr True else someE f xs)"

definition callSome :: "'a list option \<Rightarrow> ('a \<Rightarrow> js_error + bool) \<Rightarrow> js_error + bool" where
  "callSome xs f = (case xs of None \<Rightarrow> Inl TypeError | Some ys \<Rightarrow> someE f ys)"

text \<open>
  The body of the effect on such records, for a string \<open>query\<close>, statement by statement;
  \<^verbatim>\<open>join\<close> writes a missing name as the empty string.
\<close>

definition searchRaw ::
    "raw_medicamento list \<Rightarrow> string \<Rightarrow> raw_user_drug list \<Rightarrow> js_error + raw_state" where
  "searchRaw MEDICAMENTOS query userDrugs =
     (let lq = trim (toLowerCase query) in
      bindE (filterE (\<lambda>m. bindE (callToLowerCase (name_raw m)) (\<lambda>n. Inr (n = lq)))
               MEDICAMENTOS) (\<lambda>exactMatch.
      bindE (filterE (\<lambda>m. bindE (callToLowerCase (name_raw m)) (\<lambda>n.
                            if includes_str n lq
                            then bindE (callToLowerCase (name_raw m)) (\<lambda>n'. Inr (n' \<noteq> lq))
                            else Inr False))
               MEDICAMENTOS) (\<lambda>partialMatch.
      bindE (filterE (\<lambda>m. bindE (readField (indications_raw m) keywords_raw) (\<lambda>ks.
                            callSome ks (\<lambda>keyword. callIncludes keyword lq)))
               MEDICAMENTOS) (\<lambda>forSymptomMatch.
      let similarMatch =
            (case exactMatch of
               [] \<Rightarrow> []
             | e # _ \<Rightarrow> filter (\<lambda>m. category_raw m = category_raw e \<and> id_raw m \<noteq> id_raw e)
                          MEDICAMENTOS);
          similarAndPartial =
            similarMatch @
            filter (\<lambda>pm. \<not> list_ex (\<lambda>sm. id_raw sm = id_raw pm) similarMatch
                       \<and> \<not> list_ex (\<lambda>em. id_raw em = id_raw pm) exactMatch)
              partialMatch
      in
      bindE (filterE (\<lambda>drug. bindE (readField (adverseReactions_raw drug) symptoms_raw) (\<lambda>ss.
                               callSome ss (\<lambda>symptom.
                                 bindE (callToLowerCase symptom) (\<lambda>s. Inr (includes_str s lq)))))
               userDrugs) (\<lambda>conflicting.
      let conflictingDrugs =
            join '', '' (map (\<lambda>drug. case drug_name_raw drug of None \<Rightarrow> [] | Some n \<Rightarrow> n)
                           conflicting)
      in Inr \<lparr>results_raw = \<lparr>exact_raw = exactMatch,
                              similar_raw = similarAndPartial,
                              forSymptom_raw = forSymptomMatch\<rparr>,
              symptomAlert_raw =
                (if conflictingDrugs \<noteq> [] then Some (alertMessage query conflictingDrugs)
                 else None)\<rparr>)))))"

definition searchEffectRaw ::
    "raw_medicamento list \<Rightarrow> query_param \<Rightarrow> raw_user_drug list \<Rightarrow> js_error + raw_state" where
  \<comment> \<open>\<^verbatim>\<open>query.toLowerCase()\<close> throws a TypeError unless \<open>query\<close> is a string.\<close>
  "searchEffectRaw MEDICAMENTOS query userDrugs =
     (case query of
        Str q \<Rightarrow> searchRaw MEDICAMENTOS q userDrugs
      | Undefined \<Rightarrow> Inl TypeError
      | StrArray _ \<Rightarrow> Inl TypeError)"

text \<open>The records of the data model, as objects with every field present.\<close>

definition raw_of_med :: "medicamento \<Rightarrow> raw_medicamento" where
  "raw_of_med m =
     \<lparr>id_raw = Some (id_med m), name_raw = Some (name m), category_raw = Some (category m),
      indications_raw = Some \<lparr>keywords_raw = Some (map Some (keywords_list (indications m)))\<rparr>\<rparr>"

definition raw_of_drug :: "user_drug \<Rightarrow> raw_user_drug" where
  "raw_of_drug d =
     \<lparr>drug_name_raw = Some (drug_name d),
      adverseReactions_raw =
        Some \<lparr>symptoms_raw = Some (map Some (symptoms (adverseReactions d)))\<rparr>\<rparr>"

definition raw_of_state :: "screen_state \<Rightarrow> raw_state" where
  "raw_of_state s =
     \<lparr>results_raw = \<lparr>exact_raw = map raw_of_med (exact (results s)),
                      similar_raw = map raw_of_med (similar (results s)),
                      forSymptom_raw = map raw_of_med (forSymptom (results s))\<rparr>,
      symptomAlert_raw = symptomAlert s\<rparr>"

section \<open>Sample data\<close>

text \<open>Concrete records on which the theorems below are evaluated.\<close>

abbreviation paracetamol :: medicamento where
  "paracetamol \<equiv> \<lparr>id_med = 1, name = ''Paracetamol'', category = ''Analgesic'',
     indications = \<lparr>keywords_list = [''fever'', ''pain'']\<rparr>\<rparr>"

abbreviation ibuprofen :: medicamento where
  "ibuprofen \<equiv> \<lparr>id_med = 2, name = ''Ibuprofen'', category = ''Analgesic'',
     indications = \<lparr>keywords_list = [''pain'', ''inflammation'']\<rparr>\<rparr>"

abbreviation aspirin :: user_drug where
  "aspirin \<equiv> \<lparr>drug_name = ''Aspirin'',
     adverseReactions = \<lparr>symptoms = [''nausea'', ''bleeding'']\<rparr>\<rparr>"

abbreviation dipirona_gotas :: medicamento where
  "dipirona_gotas \<equiv> \<lparr>id_med = 1, name = ''Dipirona'', category = ''Analgesico'',
     indications = \<lparr>keywords_list = [''Febre'', ''dor'']\<rparr>\<rparr>"

abbreviation dipirona_comprimido :: medicamento where
  "dipirona_comprimido \<equiv> \<lparr>id_med = 2, name = ''Dipirona'', category = ''Analgesico'',
     indications = \<lparr>keywords_list = [''Febre'', ''dor'']\<rparr>\<rparr>"

abbreviation unnamed_drug :: user_drug where
  "unnamed_drug \<equiv> \<lparr>drug_name = [],
     adverseReactions = \<lparr>symptoms = [''nausea'']\<rparr>\<rparr>"

abbreviation no_indications :: raw_medicamento where
  "no_indications \<equiv> \<lparr>id_raw = Some 3, name_raw = Some ''Dipirona'',
     category_raw = Some ''Analgesic'', indications_raw = None\<rparr>"

section \<open>Strings: substring test, case folding, trimming\<close>

lemma includes_str_sublist: "includes_str s sub \<longleftrightarrow> sublist sub s"
  by (induction s) (auto simp: sublist_Cons_right)

lemma includes_str_Nil [simp]: "includes_str s []"
  by (simp add: includes_str_sublist)

lemma toLowerCaseChar_idem: "toLowerCaseChar (toLowerCaseChar c) = toLowerCaseChar c"
  by (auto simp: toLowerCaseChar_def Let_def)

lemma toLowerCase_idem: "toLowerCase (toLowerCase s) = toLowerCase s"
  by (simp add: toLowerCase_def toLowerCaseChar_idem)

lemma toLowerCase_Nil_iff [simp]: "toLowerCase s = [] \<longleftrightarrow> s = []"
  by (simp add: toLowerCase_def)

lemma set_trim: "set (trim s) \<subseteq> set s"
proof
  fix c assume "c \<in> set (trim s)"
  then have "c \<in> set (dropWhile isWhiteSpace (rev (dropWhile isWhiteSpace s)))"
    by (simp add: trim_def)
  then have "c \<in> set (rev (dropWhile isWhiteSpace s))"
    by (rule set_dropWhileD)
  then have "c \<in> set (dropWhile isWhiteSpace s)"
    by simp
  then show "c \<in> set s"
    by (rule set_dropWhileD)
qed

lemma toLowerCase_trim_toLowerCase: "toLowerCase (trim (toLowerCase s)) = trim (toLowerCase s)"
proof -
  have "toLowerCaseChar c = c" if "c \<in> set (trim (toLowerCase s))" for c
  proof -
    from that set_trim have "c \<in> set (toLowerCase s)" by blast
    then obtain d where "c = toLowerCaseChar d" by (auto simp: toLowerCase_def)
    then show ?thesis by (simp add: toLowerCaseChar_idem)
  qed
  then show ?thesis
    unfolding toLowerCase_def [of "trim _"] by (simp add: map_idI)
qed

lemma dropWhile_rev_dropWhile:
  "dropWhile P (rev (dropWhile P (rev (dropWhile P s)))) = rev (dropWhile P (rev (dropWhile P s)))"
proof -
  define t where "t = dropWhile P s"
  define d where "d = dropWhile P (rev t)"
  have "dropWhile P (rev d) = rev d"
  proof (cases "d = []")
    case True
    then show ?thesis by simp
  next
    case False
    then have t: "t \<noteq> []" by (auto simp: d_def)
    have "takeWhile P (rev t) @ d = rev t" by (simp add: d_def)
    with False have "last d = last (rev t)" by (metis last_appendR)
    then have "hd (rev d) = hd t" using False t by (simp add: hd_rev last_rev)
    moreover have "\<not> P (hd t)" using t unfolding t_def by (rule hd_dropWhile)
    ultimately show ?thesis
      by (simp add: dropWhile_eq_self_iff)
  qed
  then show ?thesis unfolding d_def t_def .
qed

lemma trim_idem: "trim (trim s) = trim s"
  by (simp add: trim_def dropWhile_rev_dropWhile)

lemma isWhiteSpace_toLowerCaseChar_iff: "isWhiteSpace (toLowerCaseChar c) \<longleftrightarrow> isWhiteSpace c"
  by (auto simp: isWhiteSpace_def toLowerCaseChar_def Let_def)

lemma trim_toLowerCase: "trim (toLowerCase s) = toLowerCase (trim s)"
proof -
  have c: "isWhiteSpace \<circ> toLowerCaseChar = isWhiteSpace"
    by (rule ext) (simp add: isWhiteSpace_toLowerCaseChar_iff)
  show ?thesis
    by (simp add: trim_def toLowerCase_def dropWhile_map rev_map c)
qed

section \<open>Normalisation of the query\<close>

lemma lowerCaseQuery_idem: "lowerCaseQuery (lowerCaseQuery q) = lowerCaseQuery q"
  by (simp add: lowerCaseQuery_def toLowerCase_trim_toLowerCase trim_idem)


lemma trim_blank: "list_all isWhiteSpace s \<Longrightarrow> trim s = []"
proof -
  assume "list_all isWhiteSpace s"
  then have "dropWhile isWhiteSpace s = []"
    by (simp add: dropWhile_eq_Nil_conv list_all_iff)
  then show ?thesis by (simp add: trim_def del: dropWhile_eq_Nil_conv)
qed

lemma isWhiteSpace_toLowerCaseChar: "isWhiteSpace c \<Longrightarrow> toLowerCaseChar c = c"
  by (auto simp: isWhiteSpace_def toLowerCaseChar_def Let_def)

lemma lowerCaseQuery_blank: "list_all isWhiteSpace q \<Longrightarrow> lowerCaseQuery q = []"
proof -
  assume q: "list_all isWhiteSpace q"
  then have "toLowerCase q = q"
    unfolding toLowerCase_def by (intro map_idI) (simp add: list_all_iff isWhiteSpace_toLowerCaseChar)
  with q show ?thesis by (simp add: lowerCaseQuery_def trim_blank)
qed

section \<open>The components of the search\<close>

lemma results_search:
  "results (search M q U) =
     \<lparr>exact = exactMatch M (lowerCaseQuery q),
      similar = similarAndPartial M (lowerCaseQuery q),
      forSymptom = forSymptomMatch M (lowerCaseQuery q)\<rparr>"
  by (simp add: search_def Let_def)

lemma symptomAlert_search:
  "symptomAlert (search M q U) =
     (if conflictingDrugs U (lowerCaseQuery q) \<noteq> []
      then Some (alertMessage q (conflictingDrugs U (lowerCaseQuery q))) else None)"
  by (simp add: search_def Let_def)

lemma similarMatch_filter:
  "similarMatch M lq =
     filter (\<lambda>m. case exactMatch M lq of [] \<Rightarrow> False
                  | e # _ \<Rightarrow> category m = category e \<and> id_med m \<noteq> id_med e) M"
  by (simp add: similarMatch_def split: list.splits)

lemma list_ex_id_med:
  "list_ex (\<lambda>x. id_med x = id_med m) xs \<longleftrightarrow> id_med m \<in> id_med ` set xs"
  by (force simp: list_ex_iff image_iff)

lemma alert_iff_joined_names:
  "symptomAlert (search M q U) \<noteq> None \<longleftrightarrow> conflictingDrugs U (lowerCaseQuery q) \<noteq> []"
  by (simp add: symptomAlert_search)

lemma join_Nil_iff:
  "join sep xs = [] \<longleftrightarrow>
     xs = [] \<or> (sep = [] \<and> (\<forall>x\<in>set xs. x = [])) \<or> xs = [[]]"
  by (induction sep xs rule: join.induct) auto

lemma alert_needs_conflicting_drug:
  assumes "symptomAlert (search M q U) = Some msg"
  shows "msg = alertMessage q (conflictingDrugs U (lowerCaseQuery q))
    \<and> (\<exists>drug \<in> set U. \<exists>symptom \<in> set (symptoms (adverseReactions drug)).
          sublist (lowerCaseQuery q) (toLowerCase symptom))"
proof -
  from assms have c: "conflictingDrugs U (lowerCaseQuery q) \<noteq> []"
    and m: "msg = alertMessage q (conflictingDrugs U (lowerCaseQuery q))"
    by (auto simp: symptomAlert_search split: if_splits)
  from c have "filter (\<lambda>drug. list_ex (\<lambda>symptom. includes_str (toLowerCase symptom) (lowerCaseQuery q))
                             (symptoms (adverseReactions drug))) U \<noteq> []"
    by (auto simp: conflictingDrugs_def)
  then show ?thesis using m
    by (auto simp: filter_empty_conv list_ex_iff includes_str_sublist)
qed

lemma similar_distinct_ids:
  assumes "distinct (map id_med M)"
  shows "distinct (map id_med (similar (results (search M q U))))"
proof -
  let ?lq = "lowerCaseQuery q"
  have a: "distinct (map id_med (similarMatch M ?lq))"
    unfolding similarMatch_filter using assms by (rule distinct_map_filter)
  have b: "distinct (map id_med (filter P (partialMatch M ?lq)))" for P
    unfolding partialMatch_def filter_filter using assms by (rule distinct_map_filter)
  show ?thesis
    unfolding results_search similarAndPartial_def
    using a b by (force simp: list_ex_id_med image_iff)
qed

lemma similar_exact_disjoint_ids:
  assumes "length (exact (results (search M q U))) \<le> 1"
  shows "id_med ` set (similar (results (search M q U)))
           \<inter> id_med ` set (exact (results (search M q U))) = {}"
proof (cases "exactMatch M (lowerCaseQuery q)")
  case Nil
  then show ?thesis by (simp add: results_search)
next
  case (Cons e es)
  with assms have "es = []" by (simp add: results_search)
  with Cons show ?thesis
    by (auto simp: results_search similarAndPartial_def similarMatch_def list_ex_id_med)
qed

section \<open>Untyped records: when the effect completes\<close>

lemma bindE_simps [simp]: "bindE (Inl e) f = Inl e" "bindE (Inr x) f = f x"
  by (simp_all add: bindE_def)

lemma filterE_map_Inr:
  assumes "\<And>x. f (g x) = Inr (P x)"
  shows "filterE f (map g xs) = Inr (map g (filter P xs))"
  by (induction xs) (simp_all add: assms)

lemma someE_map_Inr:
  assumes "\<And>x. f (g x) = Inr (P x)"
  shows "someE f (map g xs) = Inr (list_ex P xs)"
  by (induction xs) (simp_all add: assms)

lemma filterE_Inr_elem:
  "filterE f xs = Inr ys \<Longrightarrow> x \<in> set xs \<Longrightarrow> \<exists>b. f x = Inr b"
  by (induction xs arbitrary: ys) (auto simp: bindE_def split: sum.splits)

lemma searchRaw_typed:
  "searchRaw (map raw_of_med M) q (map raw_of_drug D) = Inr (raw_of_state (search M q D))"
proof -
  let ?lq = "trim (toLowerCase q)"
  have e: "filterE (\<lambda>m. bindE (callToLowerCase (name_raw m)) (\<lambda>n. Inr (n = ?lq))) (map raw_of_med M)
      = Inr (map raw_of_med (exactMatch M ?lq))"
    unfolding exactMatch_def
    by (rule filterE_map_Inr) (simp add: raw_of_med_def callToLowerCase_def)
  have p: "filterE (\<lambda>m. bindE (callToLowerCase (name_raw m)) (\<lambda>n.
                            if includes_str n ?lq
                            then bindE (callToLowerCase (name_raw m)) (\<lambda>n'. Inr (n' \<noteq> ?lq))
                            else Inr False)) (map raw_of_med M)
      = Inr (map raw_of_med (partialMatch M ?lq))"
    unfolding partialMatch_def
    by (rule filterE_map_Inr) (simp add: raw_of_med_def callToLowerCase_def)
  have s: "filterE (\<lambda>m. bindE (readField (indications_raw m) keywords_raw) (\<lambda>ks.
                            callSome ks (\<lambda>keyword. callIncludes keyword ?lq))) (map raw_of_med M)
      = Inr (map raw_of_med (forSymptomMatch M ?lq))"
    unfolding forSymptomMatch_def
    by (rule filterE_map_Inr)
      (simp add: raw_of_med_def readField_def callSome_def callIncludes_def someE_map_Inr)
  have c: "filterE (\<lambda>drug. bindE (readField (adverseReactions_raw drug) symptoms_raw) (\<lambda>ss.
                               callSome ss (\<lambda>symptom.
                                 bindE (callToLowerCase symptom) (\<lambda>s. Inr (includes_str s ?lq)))))
               (map raw_of_drug D)
      = Inr (map raw_of_drug (filter (\<lambda>drug. list_ex (\<lambda>symptom. includes_str (toLowerCase symptom) ?lq)
                             (symptoms (adverseReactions drug))) D))"
    by (rule filterE_map_Inr)
      (simp add: raw_of_drug_def readField_def callSome_def callToLowerCase_def someE_map_Inr)
  have sm: "(case map raw_of_med (exactMatch M ?lq) of
               [] \<Rightarrow> []
             | e # _ \<Rightarrow> filter (\<lambda>m. category_raw m = category_raw e \<and> id_raw m \<noteq> id_raw e)
                          (map raw_of_med M))
      = map raw_of_med (similarMatch M ?lq)"
    by (cases "exactMatch M ?lq")
      (simp_all add: similarMatch_def filter_map comp_def raw_of_med_def)
  have le: "list_ex (\<lambda>x. id_raw x = id_raw (raw_of_med m)) (map raw_of_med xs)
      \<longleftrightarrow> list_ex (\<lambda>x. id_med x = id_med m) xs" for m xs
    by (simp add: list_ex_iff raw_of_med_def)
  have sp: "map raw_of_med (similarMatch M ?lq) @
            filter (\<lambda>pm. \<not> list_ex (\<lambda>sm. id_raw sm = id_raw pm) (map raw_of_med (similarMatch M ?lq))
                       \<and> \<not> list_ex (\<lambda>em. id_raw em = id_raw pm) (map raw_of_med (exactMatch M ?lq)))
              (map raw_of_med (partialMatch M ?lq))
      = map raw_of_med (similarAndPartial M ?lq)"
    by (simp add: similarAndPartial_def filter_map comp_def le)
  have j: "map (\<lambda>drug. case drug_name_raw drug of None \<Rightarrow> [] | Some n \<Rightarrow> n) (map raw_of_drug xs)
      = map drug_name xs" for xs
    by (simp add: raw_of_drug_def)
  show ?thesis
    unfolding searchRaw_def Let_def e p s c bindE_simps sm sp j
    by (simp add: raw_of_state_def search_def lowerCaseQuery_def conflictingDrugs_def Let_def)
qed

lemma searchRaw_Inr_fields:
  assumes "searchRaw C q U = Inr s"
  shows "(\<forall>m \<in> set C. name_raw m \<noteq> None
            \<and> (\<exists>i ks. indications_raw m = Some i \<and> keywords_raw i = Some ks))
       \<and> (\<forall>d \<in> set U. \<exists>a ss. adverseReactions_raw d = Some a \<and> symptoms_raw a = Some ss)"
proof -
  let ?lq = "trim (toLowerCase q)"
  let ?fe = "\<lambda>m. bindE (callToLowerCase (name_raw m)) (\<lambda>n. Inr (n = ?lq))"
  let ?fs = "\<lambda>m. bindE (readField (indications_raw m) keywords_raw) (\<lambda>ks.
                            callSome ks (\<lambda>keyword. callIncludes keyword ?lq))"
  let ?fc = "\<lambda>drug. bindE (readField (adverseReactions_raw drug) symptoms_raw) (\<lambda>ss.
                               callSome ss (\<lambda>symptom.
                                 bindE (callToLowerCase symptom) (\<lambda>s. Inr (includes_str s ?lq))))"
  from assms obtain e fs cs where e: "filterE ?fe C = Inr e"
    and fs: "filterE ?fs C = Inr fs" and cs: "filterE ?fc U = Inr cs"
    unfolding searchRaw_def Let_def bindE_def by (auto split: sum.splits)
  have "name_raw m \<noteq> None" if "m \<in> set C" for m
    using filterE_Inr_elem [OF e that]
    by (auto simp: callToLowerCase_def bindE_def split: option.splits)
  moreover have "\<exists>i ks. indications_raw m = Some i \<and> keywords_raw i = Some ks" if "m \<in> set C" for m
    using filterE_Inr_elem [OF fs that]
    by (auto simp: readField_def callSome_def bindE_def split: option.splits sum.splits)
  moreover have "\<exists>a ss. adverseReactions_raw d = Some a \<and> symptoms_raw a = Some ss" if "d \<in> set U" for d
    using filterE_Inr_elem [OF cs that]
    by (auto simp: readField_def callSome_def bindE_def split: option.splits sum.splits)
  ultimately show ?thesis by blast
qed

lemma searchEffectRaw_typed:
  "searchEffectRaw (map raw_of_med M) query (map raw_of_drug D) =
     (case searchEffect M query D of Inl e \<Rightarrow> Inl e | Inr s \<Rightarrow> Inr (raw_of_state s))"
  by (cases query) (simp_all add: searchEffectRaw_def searchEffect_def searchRaw_typed)

section \<open>The exact bucket\<close>


section \<open>The similar bucket\<close>

text \<open>
  Claim C5. When the \<open>exact\<close> result is empty, the \<open>similar\<close> result is the
  partial-match list: the catalog records whose lower-cased name contains the
  normalized query as a substring without being equal to it. Nothing is added by
  category.
\<close>

theorem similar_eq_partial_when_no_exact:
  assumes "exact (results (search M q U)) = []"
  shows "similar (results (search M q U)) = partialMatch M (lowerCaseQuery q)
    \<and> partialMatch M (lowerCaseQuery q) =
        filter (\<lambda>m. sublist (lowerCaseQuery q) (toLowerCase (name m))
                    \<and> toLowerCase (name m) \<noteq> lowerCaseQuery q) M"
proof -
  from assms have "exactMatch M (lowerCaseQuery q) = []"
    by (simp add: results_search)
  then have "similarAndPartial M (lowerCaseQuery q) = partialMatch M (lowerCaseQuery q)"
    by (simp add: similarAndPartial_def similarMatch_def)
  then show ?thesis
    by (simp add: results_search partialMatch_def includes_str_sublist)
qed

text \<open>
  The query \<open>'' Para''\<close> on the two-record catalog: no exact match, and the similar
  bucket is the one partial match.
\<close>

theorem similar_eq_partial_witness:
  "exact (results (search [paracetamol, ibuprofen] '' Para'' [])) = []
   \<and> similar (results (search [paracetamol, ibuprofen] '' Para'' [])) = [paracetamol]"
proof -
  have h: "exact (results (search [paracetamol, ibuprofen] '' Para'' [])) = []"
    by code_simp
  have "similar (results (search [paracetamol, ibuprofen] '' Para'' []))
      = partialMatch [paracetamol, ibuprofen] (lowerCaseQuery '' Para'')"
    using similar_eq_partial_when_no_exact [OF h] by simp
  also have "\<dots> = [paracetamol]"
    by code_simp
  finally show ?thesis using h by simp
qed

text \<open>
  Claim C10. When the \<open>exact\<close> result is not empty and \<open>e\<close> is its first record,
  every record of the \<open>similar\<close> result is a catalog record that shares the category
  of \<open>e\<close> and has another id, or whose lower-cased name contains the normalized query
  as a substring without being equal to it.
\<close>

theorem similar_sound:
  assumes "exact (results (search M q U)) = e # es"
    and "m \<in> set (similar (results (search M q U)))"
  shows "m \<in> set M
    \<and> ((category m = category e \<and> id_med m \<noteq> id_med e)
       \<or> (sublist (lowerCaseQuery q) (toLowerCase (name m))
           \<and> toLowerCase (name m) \<noteq> lowerCaseQuery q))"
  using assms
  by (auto simp: results_search similarAndPartial_def similarMatch_def partialMatch_def
      includes_str_sublist)

text \<open>
  The query \<open>''Paracetamol ''\<close>: the exact match is paracetamol, and ibuprofen is in
  the similar bucket as a category mate.
\<close>

theorem similar_sound_witness:
  "exact (results (search [paracetamol, ibuprofen] ''Paracetamol '' [])) = [paracetamol]
   \<and> ibuprofen \<in> set (similar (results (search [paracetamol, ibuprofen] ''Paracetamol '' [])))
   \<and> ibuprofen \<in> set [paracetamol, ibuprofen]
   \<and> category ibuprofen = category paracetamol
   \<and> id_med ibuprofen \<noteq> id_med paracetamol"
proof -
  have h1: "exact (results (search [paracetamol, ibuprofen] ''Paracetamol '' [])) = [paracetamol]"
    by code_simp
  have h2: "ibuprofen \<in> set (similar (results (search [paracetamol, ibuprofen] ''Paracetamol '' [])))"
    by code_simp
  from similar_sound [OF h1 h2] h1 h2 show ?thesis
    by simp
qed

text \<open>
  Claim C1. The \<open>similar\<close> result should hold no record of the \<open>exact\<close> result and
  no two records with the same id. The category filter leaves out the first exact match
  only: with two catalog records of the same name and category, the second exact match
  is in both buckets. (With at most one exact match the two buckets share no id, and a
  catalog with distinct ids gives a similar bucket with distinct ids:
  \<open>similar_exact_disjoint_ids\<close>, \<open>similar_distinct_ids\<close>.)
\<close>

theorem similar_holds_second_exact_match:
  "exact (results (search [dipirona_gotas, dipirona_comprimido] ''dipirona'' [])) =
     [dipirona_gotas, dipirona_comprimido]
   \<and> similar (results (search [dipirona_gotas, dipirona_comprimido] ''dipirona'' [])) =
     [dipirona_comprimido]"
  by code_simp

section \<open>The symptom bucket\<close>

text \<open>
  Claim C3. A record should be in the \<open>forSymptom\<close> result if and only if one of its
  indication keywords contains the normalized query when case is ignored on both sides.
  The keyword is compared as it is written, without \<^verbatim>\<open>toLowerCase\<close>: the keyword
  \<open>''Febre''\<close> contains the query \<open>''febre''\<close> once lower-cased, and the record is not
  found.
\<close>

theorem forSymptom_is_case_sensitive:
  "includes_str (toLowerCase ''Febre'') (lowerCaseQuery ''febre'')
   \<and> forSymptom (results (search [dipirona_gotas] ''febre'' [])) = []"
  by code_simp

section \<open>Order of the results\<close>

text \<open>
  Claim C8. The \<open>exact\<close> and \<open>forSymptom\<close> results are subsequences of the
  catalog, and the \<open>similar\<close> result is the category mates of the first exact match in
  catalog order, followed by the remaining partial name matches in catalog order (those
  whose id is neither among the category mates nor among the exact matches).
\<close>

theorem results_in_catalog_order:
  "subseq (exact (results (search M q U))) M
   \<and> subseq (forSymptom (results (search M q U))) M
   \<and> similar (results (search M q U)) =
       filter (\<lambda>m. case exact (results (search M q U)) of
                      [] \<Rightarrow> False
                    | e # _ \<Rightarrow> category m = category e \<and> id_med m \<noteq> id_med e) M
       @ filter (\<lambda>m. (includes_str (toLowerCase (name m)) (lowerCaseQuery q)
                       \<and> toLowerCase (name m) \<noteq> lowerCaseQuery q)
                    \<and> id_med m \<notin> id_med ` set (similarMatch M (lowerCaseQuery q))
                    \<and> id_med m \<notin> id_med ` set (exact (results (search M q U)))) M"
proof -
  let ?lq = "lowerCaseQuery q"
  have 1: "subseq (exactMatch M ?lq) M"
    by (simp add: exactMatch_def)
  have 2: "subseq (forSymptomMatch M ?lq) M"
    by (simp add: forSymptomMatch_def)
  have 3: "similarMatch M ?lq =
      filter (\<lambda>m. case exactMatch M ?lq of [] \<Rightarrow> False
                   | e # _ \<Rightarrow> category m = category e \<and> id_med m \<noteq> id_med e) M"
    by (rule similarMatch_filter)
  have 5: "similarAndPartial M ?lq = similarMatch M ?lq
      @ filter (\<lambda>m. (includes_str (toLowerCase (name m)) ?lq \<and> toLowerCase (name m) \<noteq> ?lq)
                    \<and> id_med m \<notin> id_med ` set (similarMatch M ?lq)
                    \<and> id_med m \<notin> id_med ` set (exactMatch M ?lq)) M"
    unfolding similarAndPartial_def partialMatch_def filter_filter list_ex_id_med
    by (simp add: conj_commute conj_left_commute cong: filter_cong)
  show ?thesis
    unfolding results_search using 1 2 3 5 by simp
qed

section \<open>The conflict alert\<close>

text \<open>
  Claim C2. An alert should be produced if and only if some user drug has a symptom
  that contains the normalized query. The effect tests the joined names for truthiness,
  not the list of conflicting drugs: a single conflicting drug whose name is the empty
  string gives the empty string, and no alert. (An alert that is produced carries the
  joined names of the conflicting drugs, and there is one:
  \<open>alert_needs_conflicting_drug\<close>.)
\<close>

theorem no_alert_for_unnamed_drug:
  "list_ex (\<lambda>symptom. includes_str (toLowerCase symptom) (lowerCaseQuery ''nausea''))
     (symptoms (adverseReactions unnamed_drug))
   \<and> symptomAlert (search [paracetamol, ibuprofen] ''nausea'' [unnamed_drug]) = None"
  by code_simp

section \<open>Normalized queries\<close>

text \<open>
  Claim C9. Searching with the normalized query, that is the query lower-cased and
  trimmed (in the order of the code, or trimmed first), gives the same three result
  lists as searching with the raw query, and an alert is present for the one exactly
  when it is present for the other.
\<close>

theorem search_normalized_query:
  "results (search M (trim (toLowerCase q)) U) = results (search M q U)
   \<and> results (search M (toLowerCase (trim q)) U) = results (search M q U)
   \<and> (symptomAlert (search M (trim (toLowerCase q)) U) = None \<longleftrightarrow>
        symptomAlert (search M q U) = None)
   \<and> (symptomAlert (search M (toLowerCase (trim q)) U) = None \<longleftrightarrow>
        symptomAlert (search M q U) = None)"
proof -
  have 1: "lowerCaseQuery (trim (toLowerCase q)) = lowerCaseQuery q"
    using lowerCaseQuery_idem [of q] by (simp add: lowerCaseQuery_def)
  have 2: "toLowerCase (trim q) = trim (toLowerCase q)"
    by (simp add: trim_toLowerCase)
  show ?thesis
    unfolding 2 by (simp add: results_search symptomAlert_search 1)
qed

text \<open>
  The query \<open>'' Para''\<close> is changed by the normalization and gives the same similar
  bucket as \<open>''para''\<close>; \<open>''NAUSEA ''\<close> raises the alert that \<open>''nausea''\<close> raises.
\<close>

theorem search_normalized_query_witness:
  "trim (toLowerCase '' Para'') = ''para''
   \<and> '' Para'' \<noteq> ''para''
   \<and> similar (results (search [paracetamol, ibuprofen] '' Para'' [aspirin])) = [paracetamol]
   \<and> similar (results (search [paracetamol, ibuprofen] ''para'' [aspirin])) = [paracetamol]
   \<and> trim (toLowerCase ''NAUSEA '') = ''nausea''
   \<and> symptomAlert (search [paracetamol, ibuprofen] ''NAUSEA '' [aspirin]) \<noteq> None
   \<and> symptomAlert (search [paracetamol, ibuprofen] ''nausea'' [aspirin]) \<noteq> None"
proof -
  have n1: "trim (toLowerCase '' Para'') = ''para''"
    by code_simp
  have n2: "trim (toLowerCase ''NAUSEA '') = ''nausea''"
    by code_simp
  have r: "similar (results (search [paracetamol, ibuprofen] '' Para'' [aspirin])) = [paracetamol]"
    by code_simp
  have a: "symptomAlert (search [paracetamol, ibuprofen] ''NAUSEA '' [aspirin]) \<noteq> None"
    by code_simp
  from search_normalized_query [of "[paracetamol, ibuprofen]" "'' Para''" "[aspirin]"]
  have r': "similar (results (search [paracetamol, ibuprofen] ''para'' [aspirin])) = [paracetamol]"
    unfolding n1 by (simp add: r)
  from search_normalized_query [of "[paracetamol, ibuprofen]" "''NAUSEA ''" "[aspirin]"]
  have a': "symptomAlert (search [paracetamol, ibuprofen] ''nausea'' [aspirin]) \<noteq> None"
    unfolding n2 using a by simp
  show ?thesis
    using n1 n2 r r' a a' by simp
qed

section \<open>Blank and missing queries\<close>

text \<open>
  Claim C6 (amended). A query of white space only (the empty query included) does not
  fail and is normalized to the empty string. The \<open>exact\<close> result is then the records
  with an empty name, the \<open>forSymptom\<close> result is every record with at least one
  keyword, the \<open>similar\<close> result is the whole catalog when no record has an empty name,
  and an alert is present exactly when the joined names of the user drugs with at least
  one symptom are not the empty string. The screen's own new-search action does not
  issue such a query.
\<close>

theorem blank_query_results:
  assumes "list_all isWhiteSpace q"
  shows "searchEffect M (Str q) U = Inr (search M q U)
    \<and> exact (results (search M q U)) = filter (\<lambda>m. name m = []) M
    \<and> forSymptom (results (search M q U)) =
        filter (\<lambda>m. keywords_list (indications m) \<noteq> []) M
    \<and> (list_all (\<lambda>m. name m \<noteq> []) M \<longrightarrow> similar (results (search M q U)) = M)
    \<and> (symptomAlert (search M q U) = None \<longleftrightarrow>
         join '', '' (map drug_name
           (filter (\<lambda>drug. symptoms (adverseReactions drug) \<noteq> []) U)) = [])
    \<and> handleNewSearch q = None"
proof -
  have lq: "lowerCaseQuery q = []"
    using assms by (rule lowerCaseQuery_blank)
  have ex: "list_ex (\<lambda>s. True) xs \<longleftrightarrow> xs \<noteq> []" for xs :: "string list"
    by (cases xs) simp_all
  have 1: "exactMatch M [] = filter (\<lambda>m. name m = []) M"
    by (simp add: exactMatch_def)
  have 2: "forSymptomMatch M [] = filter (\<lambda>m. keywords_list (indications m) \<noteq> []) M"
    by (simp add: forSymptomMatch_def ex)
  have 3: "similarAndPartial M [] = M" if "list_all (\<lambda>m. name m \<noteq> []) M"
  proof -
    from that have "exactMatch M [] = []" and "partialMatch M [] = M"
      by (auto simp: exactMatch_def partialMatch_def list_all_iff filter_empty_conv filter_id_conv)
    then show ?thesis
      by (simp add: similarAndPartial_def similarMatch_def)
  qed
  have 4: "conflictingDrugs U [] =
      join '', '' (map drug_name (filter (\<lambda>drug. symptoms (adverseReactions drug) \<noteq> []) U))"
    by (simp add: conflictingDrugs_def ex)
  have 5: "handleNewSearch q = None"
    using assms by (simp add: handleNewSearch_def trim_blank)
  show ?thesis
    using 3 by (simp add: searchEffect_def results_search symptomAlert_search lq 1 2 4 5)
qed

text \<open>
  The query of two spaces on the two-record catalog, with aspirin in the panel.
\<close>

theorem blank_query_witness:
  "list_all isWhiteSpace ''  ''
   \<and> exact (results (search [paracetamol, ibuprofen] ''  '' [aspirin])) = []
   \<and> forSymptom (results (search [paracetamol, ibuprofen] ''  '' [aspirin])) = [paracetamol, ibuprofen]
   \<and> similar (results (search [paracetamol, ibuprofen] ''  '' [aspirin])) = [paracetamol, ibuprofen]
   \<and> symptomAlert (search [paracetamol, ibuprofen] ''  '' [aspirin]) \<noteq> None
   \<and> handleNewSearch ''  '' = None"
proof -
  have h: "list_all isWhiteSpace ''  ''"
    by (simp add: isWhiteSpace_def)
  from blank_query_results [OF h, of "[paracetamol, ibuprofen]" "[aspirin]"] h
  show ?thesis by simp
qed

text \<open>
  As first stated, with three empty results and no alert for an empty or blank query,
  claim C6 fails on the empty query: every name and every keyword contains the empty
  string, and so does every symptom.
\<close>

theorem empty_query_floods:
  "exact (results (search [paracetamol, ibuprofen] [] [aspirin])) = []
   \<and> similar (results (search [paracetamol, ibuprofen] [] [aspirin])) = [paracetamol, ibuprofen]
   \<and> forSymptom (results (search [paracetamol, ibuprofen] [] [aspirin])) = [paracetamol, ibuprofen]
   \<and> symptomAlert (search [paracetamol, ibuprofen] [] [aspirin]) = Some (alertMessage [] ''Aspirin'')"
  by code_simp

text \<open>
  Claim C7 (amended). For every string query and every catalog and panel whose records
  carry the fields the effect reads (the name; the indication keywords; the symptoms of
  the adverse reactions), the effect completes without an exception, with the results
  and the alert of the search. Nothing is validated: whenever the effect completes, the
  query was a string, every catalog record had a name and indication keywords, and every
  user drug had the symptoms of its adverse reactions. Any other input ends in a
  TypeError.
\<close>

theorem searchEffectRaw_completes:
  "searchEffectRaw (map raw_of_med M) (Str q) (map raw_of_drug D) = Inr (raw_of_state (search M q D))
   \<and> (searchEffectRaw C query U = Inr s \<longrightarrow>
        (\<exists>q'. query = Str q')
        \<and> (\<forall>m \<in> set C. name_raw m \<noteq> None
              \<and> (\<exists>i ks. indications_raw m = Some i \<and> keywords_raw i = Some ks))
        \<and> (\<forall>d \<in> set U. \<exists>a ss. adverseReactions_raw d = Some a \<and> symptoms_raw a = Some ss))"
proof -
  have "searchEffectRaw (map raw_of_med M) (Str q) (map raw_of_drug D)
      = Inr (raw_of_state (search M q D))"
    by (simp add: searchEffectRaw_def searchRaw_typed)
  moreover have "(\<exists>q'. query = Str q')
        \<and> (\<forall>m \<in> set C. name_raw m \<noteq> None
              \<and> (\<exists>i ks. indications_raw m = Some i \<and> keywords_raw i = Some ks))
        \<and> (\<forall>d \<in> set U. \<exists>a ss. adverseReactions_raw d = Some a \<and> symptoms_raw a = Some ss)"
    if "searchEffectRaw C query U = Inr s"
  proof (cases query)
    case (Str q')
    with that have "searchRaw C q' U = Inr s" by (simp add: searchEffectRaw_def)
    from searchRaw_Inr_fields [OF this] Str show ?thesis by simp
  qed (use that in \<open>simp_all add: searchEffectRaw_def\<close>)
  ultimately show ?thesis by blast
qed

text \<open>
  The query \<open>''pain''\<close> on the two-record catalog, with aspirin in the panel.
\<close>

theorem searchEffectRaw_witness:
  "searchEffectRaw (map raw_of_med [paracetamol, ibuprofen]) (Str ''pain'') (map raw_of_drug [aspirin])
     = Inr (raw_of_state (search [paracetamol, ibuprofen] ''pain'' [aspirin]))
   \<and> forSymptom (results (search [paracetamol, ibuprofen] ''pain'' [aspirin])) = [paracetamol, ibuprofen]
   \<and> name_raw (raw_of_med ibuprofen) \<noteq> None
   \<and> adverseReactions_raw (raw_of_drug aspirin) \<noteq> None"
proof -
  note t = searchEffectRaw_completes
    [of "[paracetamol, ibuprofen]" "''pain''" "[aspirin]"
        "map raw_of_med [paracetamol, ibuprofen]" "Str ''pain''" "map raw_of_drug [aspirin]"
        "raw_of_state (search [paracetamol, ibuprofen] ''pain'' [aspirin])"]
  have f: "forSymptom (results (search [paracetamol, ibuprofen] ''pain'' [aspirin])) = [paracetamol, ibuprofen]"
    by code_simp
  from t have 1: "searchEffectRaw (map raw_of_med [paracetamol, ibuprofen]) (Str ''pain'') (map raw_of_drug [aspirin])
     = Inr (raw_of_state (search [paracetamol, ibuprofen] ''pain'' [aspirin]))"
    by (rule conjunct1)
  from t 1 have 2: "name_raw (raw_of_med ibuprofen) \<noteq> None"
    by simp
  from t 1 have 3: "adverseReactions_raw (raw_of_drug aspirin) \<noteq> None"
    by auto
  show ?thesis using 1 2 3 f by simp
qed

text \<open>
  As first stated, with the effect completing for every input and malformed input
  giving no results, claim C7 fails on a missing query, on an array of strings, and on a
  string query when a catalog record has no indications: the exception leaves the
  effect.
\<close>

theorem searchEffectRaw_throws:
  "searchEffectRaw (map raw_of_med [paracetamol, ibuprofen]) Undefined (map raw_of_drug [aspirin])
     = Inl TypeError
   \<and> searchEffectRaw (map raw_of_med [paracetamol, ibuprofen]) (StrArray [''pain''])
       (map raw_of_drug [aspirin]) = Inl TypeError
   \<and> searchEffectRaw [raw_of_med paracetamol, no_indications] (Str ''pain'') [] = Inl TypeError"
  by code_simp

end
